theory Spec2Isabelle
  imports Main
begin

section \<open>Strings\<close>

text \<open>
  JavaScript strings are modelled as \<open>string\<close> (a list of characters). The functions below
  are the \<open>String.prototype\<close> and lodash operations that \<open>src/utils.ts\<close> calls; each works
  position by position, so the alphabet plays no role.
\<close>

text \<open>\<open>s.endsWith(suffix)\<close>.\<close>

definition endsWith :: "string \<Rightarrow> string \<Rightarrow> bool" where
  "endsWith s suffix =
     (length suffix \<le> length s \<and> drop (length s - length suffix) s = suffix)"

text \<open>\<open>s.split(c)\<close> for a one-character separator: never empty, \<open>"".split(".")\<close> is \<open>[""]\<close>.\<close>

fun split_on :: "char \<Rightarrow> string \<Rightarrow> string list" where
  "split_on c [] = [[]]"
| "split_on c (x # xs) =
     (if x = c then [] # split_on c xs
      else (case split_on c xs of
              [] \<Rightarrow> [[x]]
            | seg # segs \<Rightarrow> (x # seg) # segs))"

text \<open>lodash \<open>_.last(array)\<close>: \<open>undefined\<close> (here \<open>None\<close>) on the empty array.\<close>

definition lodash_last :: "'a list \<Rightarrow> 'a option" where
  "lodash_last xs = (case rev xs of [] \<Rightarrow> None | x # _ \<Rightarrow> Some x)"

text \<open>
  \<open>h.lastIndexOf(needle)\<close>: the greatest index at which \<open>needle\<close> occurs in \<open>h\<close>,
  \<open>-1\<close> when it does not occur.
\<close>

definition lastIndexOf :: "string \<Rightarrow> string \<Rightarrow> int" where
  "lastIndexOf h needle =
     (case filter (\<lambda>k. take (length needle) (drop k h) = needle)
             (rev [0 ..< Suc (length h - length needle)]) of
        [] \<Rightarrow> - 1
      | k # _ \<Rightarrow> int k)"

text \<open>\<open>h.substring(0, e)\<close>: a negative end counts as 0, an end beyond the string as its length.\<close>

definition substring0 :: "string \<Rightarrow> int \<Rightarrow> string" where
  "substring0 h e = take (nat (max 0 e)) h"

text \<open>\<open>s.slice(0, -1)\<close>: the string without its last character.\<close>

definition slice_init :: "string \<Rightarrow> string" where
  "slice_init s = butlast s"

text \<open>
  \<open>s.replace(/\.js$/, ".ts")\<close>: the pattern is anchored at the end of the input, so it
  matches at most once, on a final \<open>.js\<close>.
\<close>

definition replace_js_ts :: "string \<Rightarrow> string" where
  "replace_js_ts s =
     (if endsWith s ''.js'' then take (length s - 3) s @ ''.ts'' else s)"

text \<open>Decimal rendering of a non-negative integer inside a template literal.\<close>

definition digit :: "nat \<Rightarrow> char" where
  "digit d = ''0123456789'' ! d"

fun show_nat :: "nat \<Rightarrow> string" where
  "show_nat n = (if n < 10 then [digit n] else show_nat (n div 10) @ [digit (n mod 10)])"

section \<open>Data model\<close>

text \<open>
  The value \<open>JSON.parse\<close> returns. Numbers are kept as integers: the code only tests a
  number for truthiness. An object is the list of its properties, keys distinct.
\<close>

datatype json =
    JNull
  | JBool bool
  | JNumber int
  | JString string
  | JArray "json list"
  | JObject "(string \<times> json) list"

text \<open>
  The TypeScript declarations the module imports, with a selection of each enum's
  members; what the engine computes is a parameter (see \<open>typescript\<close> below).
\<close>

datatype ModuleKind = CommonJS | AMD | UMD | System
datatype ScriptTarget = ES3 | ES5 | ES2015 | ES2020 | ESNext
datatype ModuleResolutionKind = Classic | NodeJs

datatype option_value =
    B bool
  | S string
  | L "string list"
  | Module ModuleKind
  | Target ScriptTarget
  | Resolution ModuleResolutionKind

text \<open>
  \<open>CompilerOptions\<close> is a plain object: its properties in insertion order. Reading a
  property is \<open>map_of\<close>; the assignment \<open>options.k = v\<close> is \<open>assign\<close>.
\<close>

type_synonym CompilerOptions = "(string \<times> option_value) list"

fun assign :: "string \<Rightarrow> option_value \<Rightarrow> CompilerOptions \<Rightarrow> CompilerOptions" where
  "assign k v [] = [(k, v)]"
| "assign k v (p # ps) = (if fst p = k then (k, v) # ps else p # assign k v ps)"

record source_file =
  fileName :: string
  getLineAndCharacterOfPosition :: "nat \<Rightarrow> nat \<times> nat"

datatype message_text = MessageString string | MessageChain string "message_text list"

datatype DiagnosticCategory = Warning | Error | Suggestion | Message

record diagnostic =
  file' :: "source_file option"
  start :: "nat option"
  messageText :: message_text
  category :: DiagnosticCategory

record emit_result =
  emitSkipped :: bool
  diagnostics :: "diagnostic list"
  emittedFiles :: "string list option"

text \<open>
  Modelled from the spec: the \<open>ServerlessTSFunction\<close> declaration of \<open>./types\<close> is not among
  the sources; the spec's HandlerSpec has the essential attribute \<open>handler\<close>, a string.
\<close>

record ServerlessTSFunction =
  handler :: string

text \<open>
  Every \<open>throw\<close> of the module is a value. The first six are the \<open>new Error(...)\<close> of
  \<open>src/utils.ts\<close>, named as the spec names them:
  \<^item> \<open>ManifestEntrypointMissing\<close>: line 75, "Typescript compilation failed";
  \<^item> \<open>HandlerNameUnresolvable h\<close>: line 86, "Couldn't get exported function name; missing
    name after '.' in h";
  \<^item> \<open>HandlerFileMissing\<close>: line 103, "Typescript compilation failed. Please ensure
    handlers exists with ext .ts or .js";
  \<^item> \<open>ConfigParseError msg\<close>: line 150, \<open>msg\<close> being \<open>JSON.stringify(result.error)\<close>;
  \<^item> \<open>ConfigValidationError msg\<close>: line 155, \<open>msg\<close> being
    \<open>JSON.stringify(configParseResult.errors)\<close>;
  \<^item> \<open>CompilationFailedError\<close>: line 124, "Typescript compilation failed".

  \<open>TypeError\<close> is the runtime's own error on a property read of \<open>null\<close>, a call of
  \<open>undefined\<close>, or a \<open>JSON.stringify\<close> of a circular structure; \<open>HostError\<close> is whatever
  \<open>readFileSync\<close> or \<open>JSON.parse\<close> throws.
\<close>

datatype error =
    ManifestEntrypointMissing
  | HandlerNameUnresolvable string
  | HandlerFileMissing
  | ConfigParseError string
  | ConfigValidationError string
  | CompilationFailedError
  | TypeError
  | HostError string

section \<open>Effects\<close>

text \<open>
  What a call leaves behind, oldest first: the lines given to \<open>console.log\<close>, the paths
  given to \<open>fse.existsSync\<close>, and the messages given to the optional logger.
\<close>

record io =
  console :: "string list"
  probed :: "string list"
  logged :: "string list"

definition console_log :: "string \<Rightarrow> io \<Rightarrow> io" where
  "console_log line s = s\<lparr>console := console s @ [line]\<rparr>"

definition logger_log :: "string \<Rightarrow> io \<Rightarrow> io" where
  "logger_log msg s = s\<lparr>logged := logged s @ [msg]\<rparr>"

text \<open>
  The disk, the \<open>path\<close> module and the runtime's \<open>JSON\<close> object, as the code sees them.
  \<open>JSON.stringify\<close> is applied to one diagnostic (line 150) and to a list of them (line
  155); it throws on a value that refers back to itself, as a diagnostic with a source
  file may.
\<close>

record host =
  existsSync :: "string \<Rightarrow> bool"
  readFileSync :: "string \<Rightarrow> error + string"
  JSON_parse :: "string \<Rightarrow> error + json"
  JSON_stringify :: "diagnostic \<Rightarrow> error + string"
  JSON_stringify_all :: "diagnostic list \<Rightarrow> error + string"
  path_join :: "string \<Rightarrow> string \<Rightarrow> string"
  path_resolve :: "string \<Rightarrow> string"
  path_dirname :: "string \<Rightarrow> string"

text \<open>\<open>fse.existsSync(p)\<close>, recording the probe.\<close>

definition probe :: "host \<Rightarrow> string \<Rightarrow> io \<Rightarrow> io \<times> bool" where
  "probe hst p s = (s\<lparr>probed := probed s @ [p]\<rparr>, existsSync hst p)"

section \<open>Entry-point resolution: \<open>extractFileNames\<close>\<close>

text \<open>
  Line 70: \<open>packageFile.main ? packageFile.main.replace(/\.js$/, ".ts") : "index.ts"\<close>.
  Reading \<open>.main\<close> of \<open>null\<close> throws; of any other non-object it is \<open>undefined\<close>. A truthy
  \<open>main\<close> that is not a string has no \<open>replace\<close>, so the call throws.
\<close>

definition manifest_main :: "json \<Rightarrow> error + string" where
  "manifest_main packageFile =
     (case packageFile of
        JNull \<Rightarrow> Inl TypeError
      | JObject props \<Rightarrow>
          (case map_of props ''main'' of
             None \<Rightarrow> Inr ''index.ts''
           | Some JNull \<Rightarrow> Inr ''index.ts''
           | Some (JBool b) \<Rightarrow> (if b then Inl TypeError else Inr ''index.ts'')
           | Some (JNumber n) \<Rightarrow> (if n = 0 then Inr ''index.ts'' else Inl TypeError)
           | Some (JString m) \<Rightarrow> (if m = [] then Inr ''index.ts'' else Inr (replace_js_ts m))
           | Some (JArray _) \<Rightarrow> Inl TypeError
           | Some (JObject _) \<Rightarrow> Inl TypeError)
      | _ \<Rightarrow> Inr ''index.ts'')"

text \<open>
  Lines 84-104: the function mapped over the handler strings. The source's local
  \<open>fileName\<close> is \<open>stem\<close> here (\<open>fileName\<close> is the field of \<open>source_file\<close>).
\<close>

definition handler_file :: "host \<Rightarrow> string \<Rightarrow> string \<Rightarrow> io \<Rightarrow> io \<times> (error + string)" where
  "handler_file hst cwd h s =
     (case lodash_last (split_on CHR ''.'' h) of
        None \<Rightarrow> (s, Inl (HandlerNameUnresolvable h))
      | Some fnName \<Rightarrow>
          if fnName = [] then (s, Inl (HandlerNameUnresolvable h))
          else
            let fnNameLastAppearanceIndex = lastIndexOf h fnName;
                stem = substring0 h fnNameLastAppearanceIndex;
                (s1, ts_found) = probe hst (path_join hst cwd (stem @ ''ts'')) s
            in if ts_found then (s1, Inr (stem @ ''ts''))
               else
                 let (s2, js_found) = probe hst (path_join hst cwd (stem @ ''js'')) s1
                 in if js_found then (s2, Inr (stem @ ''js''))
                    else (console_log (''Cannot locate handler - '' @ slice_init stem
                                         @ '' not found'') s2,
                          Inl HandlerFileMissing))"

text \<open>\<open>Array.prototype.map\<close> with a callback that may throw: the first throw ends the loop.\<close>

fun map_handlers :: "host \<Rightarrow> string \<Rightarrow> string list \<Rightarrow> io \<Rightarrow> io \<times> (error + string list)" where
  "map_handlers hst cwd [] s = (s, Inr [])"
| "map_handlers hst cwd (h # hs) s =
     (case handler_file hst cwd h s of
        (s1, Inl e) \<Rightarrow> (s1, Inl e)
      | (s1, Inr f) \<Rightarrow>
          (case map_handlers hst cwd hs s1 of
             (s2, Inl e) \<Rightarrow> (s2, Inl e)
           | (s2, Inr fs) \<Rightarrow> (s2, Inr (f # fs))))"

text \<open>lodash \<open>_.values(obj)\<close>: the property values in order, \<open>[]\<close> for \<open>undefined\<close>.\<close>

definition lodash_values :: "(string \<times> 'v) list option \<Rightarrow> 'v list" where
  "lodash_values obj = (case obj of None \<Rightarrow> [] | Some props \<Rightarrow> map snd props)"

text \<open>Lines 82-104: the generic path.\<close>

definition generic_file_names ::
  "host \<Rightarrow> string \<Rightarrow> (string \<times> ServerlessTSFunction) list option \<Rightarrow> io
     \<Rightarrow> io \<times> (error + string list)" where
  "generic_file_names hst cwd functions s =
     map_handlers hst cwd (map handler (lodash_values functions)) s"

definition extractFileNames ::
  "host \<Rightarrow> string \<Rightarrow> string \<Rightarrow> (string \<times> ServerlessTSFunction) list option \<Rightarrow> io
     \<Rightarrow> io \<times> (error + string list)" where
  "extractFileNames hst cwd provider functions s =
     (if provider = ''google'' then
        let packageFilePath = path_join hst cwd ''package.json'';
            (s1, present) = probe hst packageFilePath s
        in if present then
             (case readFileSync hst packageFilePath of
                Inl e \<Rightarrow> (s1, Inl e)
              | Inr text \<Rightarrow>
                  (case JSON_parse hst text of
                     Inl e \<Rightarrow> (s1, Inl e)
                   | Inr packageFile \<Rightarrow>
                       (case manifest_main packageFile of
                          Inl e \<Rightarrow> (s1, Inl e)
                        | Inr main \<Rightarrow>
                            let (s2, found) = probe hst (path_join hst cwd main) s1
                            in if \<not> found then
                                 (console_log (''Cannot locate entrypoint, '' @ main
                                                 @ '' not found'') s2,
                                  Inl ManifestEntrypointMissing)
                               else (s2, Inr [main]))))
           else generic_file_names hst cwd functions s1
      else generic_file_names hst cwd functions s)"

section \<open>The compilation engine\<close>

text \<open>
  The \<open>typescript\<close> package is not part of the repository: what it computes is a
  parameter. \<open>'p\<close> is the engine's program object.
\<close>

record parse_text_result =
  config :: "json option"
  error :: "diagnostic option"

record parsed_command_line =
  options :: CompilerOptions
  errors :: "diagnostic list"

record 'p typescript =
  createProgram :: "string list \<Rightarrow> CompilerOptions \<Rightarrow> 'p"
  program_emit :: "'p \<Rightarrow> emit_result"
  getPreEmitDiagnostics :: "'p \<Rightarrow> diagnostic list"
  program_getSourceFiles :: "'p \<Rightarrow> source_file list"
  flattenDiagnosticMessageText :: "message_text \<Rightarrow> string \<Rightarrow> string"
  parseConfigFileTextToJson :: "string \<Rightarrow> string \<Rightarrow> parse_text_result"
  parseJsonConfigFileContent :: "json option \<Rightarrow> string \<Rightarrow> parsed_command_line"

section \<open>Compilation: \<open>run\<close> and \<open>getSourceFiles\<close>\<close>

text \<open>
  Lines 116-120, the body of the \<open>forEach\<close>. The guard is \<open>diagnostic.file &&
  diagnostic.start\<close>: an absent file, an absent offset and the offset \<open>0\<close> are all falsy.
\<close>

definition print_diagnostic :: "'p typescript \<Rightarrow> diagnostic \<Rightarrow> io \<Rightarrow> io" where
  "print_diagnostic ts d s =
     (case file' d of
        None \<Rightarrow> s
      | Some f \<Rightarrow>
          (case start d of
             None \<Rightarrow> s
           | Some pos \<Rightarrow>
               if pos = 0 then s
               else
                 let (line, character) = getLineAndCharacterOfPosition f pos;
                     message = flattenDiagnosticMessageText ts (messageText d) [CHR 0x0A]
                 in console_log (fileName f @ '' ('' @ show_nat (line + 1) @ '',''
                                   @ show_nat (character + 1) @ ''): '' @ message) s))"

text \<open>
  Lines 107-128. The caller's options object is mutated in place, so its final state is
  returned beside the console: \<open>((io, options), result)\<close>. The result is \<open>string[] |
  undefined\<close>: \<open>None\<close> when the engine reports no emitted-file list.
\<close>

definition run ::
  "'p typescript \<Rightarrow> string list \<Rightarrow> CompilerOptions \<Rightarrow> io
     \<Rightarrow> (io \<times> CompilerOptions) \<times> (error + string list option)" where
  "run ts fileNames opts s =
     (let opts1 = assign ''listEmittedFiles'' (B True) opts;
          program = createProgram ts fileNames opts1;
          emitResult = program_emit ts program;
          allDiagnostics = getPreEmitDiagnostics ts program @ diagnostics emitResult;
          s1 = fold (print_diagnostic ts) allDiagnostics s
      in if emitSkipped emitResult then ((s1, opts1), Inl CompilationFailedError)
         else ((s1, opts1),
               Inr (map_option (filter (\<lambda>filename. endsWith filename ''.js''))
                      (emittedFiles emitResult))))"

text \<open>The program \<open>run\<close> builds (lines 108-109) and what the engine reports for it.\<close>

abbreviation program_of :: "'p typescript \<Rightarrow> string list \<Rightarrow> CompilerOptions \<Rightarrow> 'p" where
  "program_of ts fileNames opts \<equiv>
     createProgram ts fileNames (assign ''listEmittedFiles'' (B True) opts)"

abbreviation emit_of :: "'p typescript \<Rightarrow> string list \<Rightarrow> CompilerOptions \<Rightarrow> emit_result" where
  "emit_of ts fileNames opts \<equiv> program_emit ts (program_of ts fileNames opts)"

text \<open>Lines 133-137.\<close>

definition getSourceFiles :: "'p typescript \<Rightarrow> string list \<Rightarrow> CompilerOptions \<Rightarrow> string list" where
  "getSourceFiles ts rootFileNames opts =
     map fileName (program_getSourceFiles ts (createProgram ts rootFileNames opts))"

section \<open>Configuration: \<open>getTypescriptConfig\<close>\<close>

text \<open>Lines 19-49.\<close>

definition makeDefaultTypescriptConfig :: CompilerOptions where
  "makeDefaultTypescriptConfig =
     [(''module'', Module CommonJS),
      (''target'', Target ES5),
      (''lib'', L [''ES2020'']),
      (''rootDir'', S ''./''),
      (''allowJs'', B True),
      (''checkJs'', B True),
      (''strict'', B True),
      (''noImplicitAny'', B True),
      (''strictNullChecks'', B True),
      (''strictFunctionTypes'', B True),
      (''strictBindCallApply'', B True),
      (''strictPropertyInitialization'', B True),
      (''noImplicitThis'', B True),
      (''alwaysStrict'', B True),
      (''noUnusedLocals'', B True),
      (''noUnusedParameters'', B True),
      (''noImplicitReturns'', B True),
      (''noFallthroughCasesInSwitch'', B True),
      (''moduleResolution'', Resolution NodeJs),
      (''esModuleInterop'', B True),
      (''experimentalDecorators'', B True),
      (''emitDecoratorMetadata'', B True),
      (''forceConsistentCasingInFileNames'', B True),
      (''preserveConstEnums'', B True),
      (''sourceMap'', B True)]"

text \<open>
  The default option set as the specification documents it (section 4.1 and the list of
  the claim about a missing config file), to be compared with
  \<open>makeDefaultTypescriptConfig\<close>: module CommonJS, target ES5, lib ES2020, allowJs and
  checkJs, strict and the strict-family flags, Node module resolution, esModuleInterop,
  experimentalDecorators and emitDecoratorMetadata, forceConsistentCasingInFileNames,
  sourceMap, and rootDir \<open>"./"\<close>.
\<close>

definition documented_default :: CompilerOptions where
  "documented_default =
     [(''module'', Module CommonJS),
      (''target'', Target ES5),
      (''lib'', L [''ES2020'']),
      (''allowJs'', B True),
      (''checkJs'', B True),
      (''strict'', B True),
      (''noImplicitAny'', B True),
      (''strictNullChecks'', B True),
      (''strictFunctionTypes'', B True),
      (''strictBindCallApply'', B True),
      (''strictPropertyInitialization'', B True),
      (''noImplicitThis'', B True),
      (''alwaysStrict'', B True),
      (''moduleResolution'', Resolution NodeJs),
      (''esModuleInterop'', B True),
      (''experimentalDecorators'', B True),
      (''emitDecoratorMetadata'', B True),
      (''forceConsistentCasingInFileNames'', B True),
      (''sourceMap'', B True),
      (''rootDir'', S ''./'')]"

text \<open>The five further options of lines 35-38 and 44.\<close>

definition undocumented_default :: CompilerOptions where
  "undocumented_default =
     [(''noUnusedLocals'', B True),
      (''noUnusedParameters'', B True),
      (''noImplicitReturns'', B True),
      (''noFallthroughCasesInSwitch'', B True),
      (''preserveConstEnums'', B True)]"

text \<open>Line 168, the text of the warning.\<close>

definition rootDir_warning :: string where
  \<open>rootDir_warning = ''Warning: "rootDir" from local tsconfig.json is overriden''\<close>

text \<open>Line 144: \<open>path.join(cwd, tsconfigFilePath)\<close>, with the parameter's default.\<close>

abbreviation config_path :: "host \<Rightarrow> string \<Rightarrow> string option \<Rightarrow> string" where
  "config_path hst cwd tsconfigFilePath \<equiv>
     path_join hst cwd (case tsconfigFilePath of None \<Rightarrow> ''tsconfig.json'' | Some p \<Rightarrow> p)"

text \<open>
  Lines 163-167, the guard of the warning, without the \<open>logger\<close> conjunct:
  \<open>options.rootDir && path.resolve(options.rootDir) !== path.resolve(cwd)\<close>.
  \<open>rootDir\<close> is declared \<open>string | undefined\<close>; the empty string is falsy.
\<close>

definition rootDir_differs :: "host \<Rightarrow> CompilerOptions \<Rightarrow> string \<Rightarrow> bool" where
  "rootDir_differs hst opts cwd =
     (case map_of opts ''rootDir'' of
        Some (S rootDir) \<Rightarrow> rootDir \<noteq> [] \<and> path_resolve hst rootDir \<noteq> path_resolve hst cwd
      | _ \<Rightarrow> False)"

text \<open>
  Lines 139-176. \<open>tsconfigFilePath\<close> is optional with default \<open>"tsconfig.json"\<close>; \<open>logger\<close>
  is \<open>True\<close> when a logger is supplied, and its messages are collected in \<open>logged\<close>. At
  lines 150 and 155 the argument \<open>JSON.stringify(...)\<close> is evaluated before the \<open>Error\<close>
  is built, so its throw wins.
\<close>

definition getTypescriptConfig ::
  "host \<Rightarrow> 'p typescript \<Rightarrow> string \<Rightarrow> string option \<Rightarrow> bool \<Rightarrow> io
     \<Rightarrow> io \<times> (error + CompilerOptions)" where
  "getTypescriptConfig hst ts cwd tsconfigFilePath logger s =
     (let configFilePath = config_path hst cwd tsconfigFilePath;
          (s1, present) = probe hst configFilePath s
      in if present then
           (case readFileSync hst configFilePath of
              Inl e \<Rightarrow> (s1, Inl e)
            | Inr configFileText \<Rightarrow>
                let result = parseConfigFileTextToJson ts configFilePath configFileText
                in (case error result of
                      Some d \<Rightarrow>
                        (case JSON_stringify hst d of
                           Inl e \<Rightarrow> (s1, Inl e)
                         | Inr msg \<Rightarrow> (s1, Inl (ConfigParseError msg)))
                    | None \<Rightarrow>
                        let configParseResult =
                              parseJsonConfigFileContent ts (config result)
                                (path_dirname hst configFilePath)
                        in if length (errors configParseResult) > 0
                           then (case JSON_stringify_all hst (errors configParseResult) of
                                   Inl e \<Rightarrow> (s1, Inl e)
                                 | Inr msg \<Rightarrow> (s1, Inl (ConfigValidationError msg)))
                           else
                             let s2 = (if logger
                                       then logger_log (''Using local tsconfig.json at ''
                                              @ [CHR 0x22] @ configFilePath @ [CHR 0x22]) s1
                                       else s1);
                                 s3 = (if rootDir_differs hst (options configParseResult) cwd
                                          \<and> logger
                                       then logger_log rootDir_warning s2
                                       else s2)
                             in (s3, Inr (assign ''rootDir'' (S cwd)
                                            (options configParseResult)))))
         else (s1, Inr makeDefaultTypescriptConfig))"

section \<open>Fixtures\<close>

definition io0 :: io where
  "io0 = \<lparr>console = [], probed = [], logged = []\<rparr>"

text \<open>
  A disk holding exactly \<open>files\<close>, with the contents \<open>texts\<close> and their parses \<open>parsed\<close>.
  The fixtures use absolute, normalised directories and plain relative names, where
  \<open>path.join\<close> puts a slash between the two and \<open>path.resolve\<close> changes nothing; the stub
  engine below ignores the base directory it is given.
\<close>

definition disk :: "string list \<Rightarrow> (string \<times> string) list \<Rightarrow> (string \<times> json) list \<Rightarrow> host" where
  "disk files texts parsed =
     \<lparr>existsSync = (\<lambda>p. p \<in> set files),
      readFileSync = (\<lambda>p. case map_of texts p of None \<Rightarrow> Inl (HostError ''ENOENT'')
                                                | Some t \<Rightarrow> Inr t),
      JSON_parse = (\<lambda>t. case map_of parsed t of None \<Rightarrow> Inl (HostError ''SyntaxError'')
                                              | Some j \<Rightarrow> Inr j),
      JSON_stringify = (\<lambda>d. case file' d of None \<Rightarrow> Inr ''{}'' | Some _ \<Rightarrow> Inl TypeError),
      JSON_stringify_all =
        (\<lambda>ds. if list_all (\<lambda>d. file' d = None) ds then Inr ''[]'' else Inl TypeError),
      path_join = (\<lambda>a b. a @ ''/'' @ b),
      path_resolve = (\<lambda>p. p),
      path_dirname = (\<lambda>p. p)\<rparr>"

text \<open>The manifest of the spec's example, \<open>{"main": "dist/app.js"}\<close>, and its parse.\<close>

definition manifest_text :: string where
  \<open>manifest_text = ''{"main": "dist/app.js"}''\<close>

definition manifest_json :: json where
  "manifest_json = JObject [(''main'', JString ''dist/app.js'')]"

definition google_disk :: "string list \<Rightarrow> host" where
  "google_disk files =
     disk (''/srv/package.json'' # files) [(''/srv/package.json'', manifest_text)]
       [(manifest_text, manifest_json)]"

text \<open>A source file of ten-character lines, and diagnostics in it.\<close>

definition a_ts :: source_file where
  "a_ts = \<lparr>fileName = ''src/a.ts'',
           getLineAndCharacterOfPosition = (\<lambda>pos. (pos div 10, pos mod 10))\<rparr>"

definition diag_at :: "nat option \<Rightarrow> DiagnosticCategory \<Rightarrow> string \<Rightarrow> diagnostic" where
  "diag_at pos cat msg =
     \<lparr>file' = Some a_ts, start = pos, messageText = MessageString msg, category = cat\<rparr>"

definition global_diag :: "string \<Rightarrow> diagnostic" where
  "global_diag msg =
     \<lparr>file' = None, start = None, messageText = MessageString msg, category = Error\<rparr>"

text \<open>
  An engine whose program is the pair of its inputs, and which reports the given
  diagnostics, emit result and configuration parse.
\<close>

definition engine ::
  "diagnostic list \<Rightarrow> emit_result \<Rightarrow> parse_text_result \<Rightarrow> parsed_command_line
     \<Rightarrow> (string list \<times> CompilerOptions) typescript" where
  "engine pre res parsed_text parsed_content =
     \<lparr>createProgram = (\<lambda>fileNames opts. (fileNames, opts)),
      program_emit = (\<lambda>_. res),
      getPreEmitDiagnostics = (\<lambda>_. pre),
      program_getSourceFiles = (\<lambda>_. [a_ts]),
      flattenDiagnosticMessageText =
        (\<lambda>m _. case m of MessageString t \<Rightarrow> t | MessageChain t _ \<Rightarrow> t),
      parseConfigFileTextToJson = (\<lambda>_ _. parsed_text),
      parseJsonConfigFileContent = (\<lambda>_ _. parsed_content)\<rparr>"

definition no_config_text :: parse_text_result where
  "no_config_text = \<lparr>config = Some (JObject []), error = None\<rparr>"

definition no_config :: parsed_command_line where
  "no_config = \<lparr>options = [], errors = []\<rparr>"

definition emitted :: "bool \<Rightarrow> string list \<Rightarrow> emit_result" where
  "emitted skipped files =
     \<lparr>emitSkipped = skipped, diagnostics = [], emittedFiles = Some files\<rparr>"

definition tsconfig_text :: string where
  \<open>tsconfig_text = ''{"compilerOptions": {"strict": true, "rootDir": "src"}}''\<close>

definition tsconfig_disk :: host where
  "tsconfig_disk = disk [''/srv/tsconfig.json''] [(''/srv/tsconfig.json'', tsconfig_text)] []"

definition tsconfig_parsed :: parsed_command_line where
  "tsconfig_parsed =
     \<lparr>options = [(''strict'', B True), (''rootDir'', S ''/srv/src'')], errors = []\<rparr>"

definition tsconfig_engine :: "(string list \<times> CompilerOptions) typescript" where
  "tsconfig_engine = engine [] (emitted False []) no_config_text tsconfig_parsed"

text \<open>
  Three compiles: one the engine skips, one that emits in spite of an error diagnostic,
  and one whose first diagnostic sits at offset 0.
\<close>

definition skipping_engine :: "(string list \<times> CompilerOptions) typescript" where
  "skipping_engine =
     engine [diag_at (Some 25) Warning ''unused''] (emitted True []) no_config_text no_config"

definition lenient_engine :: "(string list \<times> CompilerOptions) typescript" where
  "lenient_engine =
     engine [diag_at (Some 25) Error ''bad type'', global_diag ''no inputs'']
       (emitted False [''out/a.js'', ''out/a.js.map'', ''out/a.d.ts'', ''out/b.js''])
       no_config_text no_config"

definition offset_zero_engine :: "(string list \<times> CompilerOptions) typescript" where
  "offset_zero_engine =
     engine [diag_at (Some 0) Error ''Cannot find name x.'',
             diag_at (Some 25) Error ''Cannot find name y.'']
       (emitted False [''out/a.js'']) no_config_text no_config"

section \<open>Strings: properties\<close>

lemma split_on_not_Nil [simp]: "split_on c xs \<noteq> []"
  by (induction xs) (auto split: list.splits)

lemma split_on_no_sep: "c \<notin> set xs \<Longrightarrow> split_on c xs = [xs]"
  by (induction xs) auto

lemma split_on_append:
  "split_on c (xs @ c # ys) = split_on c xs @ split_on c ys"
proof (induction xs)
  case Nil
  then show ?case by simp
next
  case (Cons x xs)
  obtain seg segs where "split_on c xs = seg # segs"
    by (cases "split_on c xs") simp_all
  with Cons show ?case by simp
qed

lemma last_split_on_append:
  "last (split_on c (xs @ c # ys)) = last (split_on c ys)"
  by (simp add: split_on_append)

lemma lodash_last_eq: "xs \<noteq> [] \<Longrightarrow> lodash_last xs = Some (last xs)"
  by (cases xs rule: rev_cases) (auto simp: lodash_last_def)

lemma lodash_last_split_on:
  "lodash_last (split_on c h) = Some (last (split_on c h))"
  by (simp add: lodash_last_eq)

text \<open>The last segment is a suffix of the string, so its last occurrence is that suffix.\<close>

lemma last_split_on_suffix: "\<exists>p. h = p @ last (split_on c h)"
proof (cases "c \<in> set h")
  case True
  then obtain xs ys where h: "h = xs @ c # ys" and "c \<notin> set ys"
    by (auto dest: split_list_last)
  then have "last (split_on c h) = ys"
    by (simp add: last_split_on_append split_on_no_sep)
  with h have "h = (xs @ [c]) @ last (split_on c h)" by simp
  then show ?thesis by blast
next
  case False
  then have "h = [] @ last (split_on c h)" by (simp add: split_on_no_sep)
  then show ?thesis by blast
qed

text \<open>The last segment is empty exactly for the empty string and a string ending in the separator.\<close>

lemma last_split_on_empty_iff:
  "last (split_on c h) = [] \<longleftrightarrow> h = [] \<or> last h = c"
proof (cases "c \<in> set h")
  case True
  then obtain xs ys where h: "h = xs @ c # ys" and ys: "c \<notin> set ys"
    by (auto dest: split_list_last)
  then have "last (split_on c h) = ys"
    by (simp add: last_split_on_append split_on_no_sep)
  moreover have "ys = [] \<longleftrightarrow> last h = c"
    using h ys by (cases ys rule: rev_cases) auto
  ultimately show ?thesis using h by simp
next
  case False
  then have "last (split_on c h) = h" by (simp add: split_on_no_sep)
  moreover have "h \<noteq> [] \<Longrightarrow> last h \<noteq> c" using False last_in_set by metis
  ultimately show ?thesis by auto
qed

lemma lastIndexOf_suffix: "lastIndexOf (p @ n) n = int (length p)"
  by (simp add: lastIndexOf_def)

lemma stem_of_suffix: "substring0 (p @ n) (lastIndexOf (p @ n) n) = p"
  by (simp add: lastIndexOf_suffix substring0_def)

lemma endsWith_nested:
  assumes "endsWith f x" and "endsWith f y" and "length x \<le> length y"
  shows "endsWith y x"
proof -
  from assms have x: "length x \<le> length f" "drop (length f - length x) f = x"
    and y: "length y \<le> length f" "drop (length f - length y) f = y"
    by (simp_all add: endsWith_def)
  have "drop (length y - length x) y = drop (length y - length x) (drop (length f - length y) f)"
    using y by simp
  also have "\<dots> = drop (length f - length x) f"
    using assms(3) y(1) by simp
  finally show ?thesis using x assms(3) by (simp add: endsWith_def)
qed

lemma endsWith_js_not_other:
  assumes "endsWith f ''.js''"
  shows "\<not> endsWith f ''.js.map'' \<and> \<not> endsWith f ''.d.ts''"
proof -
  have "\<not> endsWith ''.js.map'' ''.js''" "\<not> endsWith ''.d.ts'' ''.js''"
    by (simp_all add: endsWith_def)
  then show ?thesis
    using assms endsWith_nested [of f "''.js''" "''.js.map''"]
      endsWith_nested [of f "''.js''" "''.d.ts''"] by auto
qed

lemma map_of_assign:
  "map_of (assign k v ps) k' = (if k' = k then Some v else map_of ps k')"
  by (induction ps) auto

section \<open>Entry-point resolution: properties\<close>

lemma generic_file_names_absent [simp]:
  "generic_file_names hst cwd None s = (s, Inr [])"
  "generic_file_names hst cwd (Some []) s = (s, Inr [])"
  by (simp_all add: generic_file_names_def lodash_values_def)

lemma extractFileNames_generic:
  "provider \<noteq> ''google'' \<Longrightarrow>
     extractFileNames hst cwd provider functions s = generic_file_names hst cwd functions s"
  by (simp add: extractFileNames_def)

lemma generic_file_names_single:
  "generic_file_names hst cwd (Some [(k, fn)]) s =
     (case handler_file hst cwd (handler fn) s of
        (s1, Inl e) \<Rightarrow> (s1, Inl e)
      | (s1, Inr f) \<Rightarrow> (s1, Inr [f]))"
  by (simp add: generic_file_names_def lodash_values_def split: prod.splits sum.splits)

text \<open>
  What the mapped function does with a handler \<open>p @ fn\<close> whose last segment \<open>fn\<close> is not
  empty: the stem is \<open>p\<close>, probed with \<open>ts\<close> and then with \<open>js\<close>.
\<close>

lemma handler_file_split:
  assumes "last (split_on CHR ''.'' (p @ fn)) = fn" and "fn \<noteq> []"
  shows "handler_file hst cwd (p @ fn) s =
     (if existsSync hst (path_join hst cwd (p @ ''ts''))
      then (s\<lparr>probed := probed s @ [path_join hst cwd (p @ ''ts'')]\<rparr>, Inr (p @ ''ts''))
      else if existsSync hst (path_join hst cwd (p @ ''js''))
      then (s\<lparr>probed := probed s @ [path_join hst cwd (p @ ''ts''),
                                      path_join hst cwd (p @ ''js'')]\<rparr>, Inr (p @ ''js''))
      else (s\<lparr>probed := probed s @ [path_join hst cwd (p @ ''ts''),
                                      path_join hst cwd (p @ ''js'')],
               console := console s
                  @ [''Cannot locate handler - '' @ butlast p @ '' not found'']\<rparr>,
            Inl HandlerFileMissing))"
  using assms
  by (simp add: handler_file_def lodash_last_split_on stem_of_suffix probe_def console_log_def
        slice_init_def Let_def)

lemma handler_file_empty_name:
  assumes "last (split_on CHR ''.'' h) = []"
  shows "handler_file hst cwd h s = (s, Inl (HandlerNameUnresolvable h))"
  using assms by (simp add: handler_file_def lodash_last_split_on)

text \<open>\<open>HandlerNameUnresolvable\<close> is raised for the empty handler and one ending in a dot, only.\<close>

lemma handler_name_unresolvable_iff:
  "snd (handler_file hst cwd h s) = Inl (HandlerNameUnresolvable h') \<longleftrightarrow>
     h' = h \<and> (h = [] \<or> last h = CHR ''.'')"
proof (cases "last (split_on CHR ''.'' h) = []")
  case True
  then show ?thesis
    using last_split_on_empty_iff [of "CHR ''.''" h] by (auto simp: handler_file_empty_name)
next
  case False
  obtain p where "h = p @ last (split_on CHR ''.'' h)"
    using last_split_on_suffix by blast
  then have "last (split_on CHR ''.'' (p @ last (split_on CHR ''.'' h)))
               = last (split_on CHR ''.'' h)" by simp
  from handler_file_split [OF this False, of hst cwd s] \<open>h = p @ last (split_on CHR ''.'' h)\<close>
  have "snd (handler_file hst cwd h s) \<noteq> Inl (HandlerNameUnresolvable h')"
    by (simp split: if_splits)
  then show ?thesis
    using False last_split_on_empty_iff [of "CHR ''.''" h] by simp
qed

text \<open>The generic path is reached for any other target, and for \<open>"google"\<close> without a manifest.\<close>

lemma extractFileNames_reaches_generic:
  assumes "provider \<noteq> ''google'' \<or> \<not> existsSync hst (path_join hst cwd ''package.json'')"
  shows "\<exists>s'. extractFileNames hst cwd provider functions s
                = generic_file_names hst cwd functions s'"
proof (cases "provider = ''google''")
  case True
  with assms have "extractFileNames hst cwd provider functions s
      = generic_file_names hst cwd functions
          (s\<lparr>probed := probed s @ [path_join hst cwd ''package.json'']\<rparr>)"
    by (simp add: extractFileNames_def probe_def)
  then show ?thesis by blast
next
  case False
  then show ?thesis using extractFileNames_generic by blast
qed

text \<open>
  What the code does with a handler that contains no dot, on the generic path: only the
  empty handler is rejected for its name; any other is taken whole as the exported name,
  the stem is empty, and the files probed are \<open>ts\<close> and \<open>js\<close> themselves.
\<close>

lemma generic_without_dot:
  assumes "CHR ''.'' \<notin> set (handler fn)"
    and "provider \<noteq> ''google'' \<or> \<not> existsSync hst (path_join hst cwd ''package.json'')"
  shows "snd (extractFileNames hst cwd provider (Some [(k, fn)]) s) =
     (if handler fn = [] then Inl (HandlerNameUnresolvable [])
      else if existsSync hst (path_join hst cwd ''ts'') then Inr [''ts'']
      else if existsSync hst (path_join hst cwd ''js'') then Inr [''js'']
      else Inl HandlerFileMissing)"
proof -
  obtain s' where generic:
    "extractFileNames hst cwd provider (Some [(k, fn)]) s
       = generic_file_names hst cwd (Some [(k, fn)]) s'"
    using extractFileNames_reaches_generic [OF assms(2)] by blast
  show ?thesis
  proof (cases "handler fn = []")
    case True
    then have "handler_file hst cwd (handler fn) s' = (s', Inl (HandlerNameUnresolvable []))"
      by (simp add: handler_file_empty_name)
    then show ?thesis
      using True by (simp add: generic generic_file_names_single)
  next
    case False
    have "last (split_on CHR ''.'' ([] @ handler fn)) = handler fn"
      using assms(1) by (simp add: split_on_no_sep)
    from handler_file_split [OF this False, of hst cwd s'] show ?thesis
      using False by (simp add: generic generic_file_names_single)
  qed
qed

text \<open>
  C1 (the code departs from the claim). The handler \<open>"handler"\<close>, which has no dot, is
  not rejected with \<open>HandlerNameUnresolvable\<close>. With nothing on disk the code probes
  \<open>/srv/ts\<close> and \<open>/srv/js\<close>, prints a message with an empty handler name and fails with
  \<open>HandlerFileMissing\<close>; with a file named \<open>ts\<close> under \<open>cwd\<close> it returns \<open>["ts"]\<close>.
\<close>

theorem handler_without_dot_passes_name_check:
  "extractFileNames (disk [] [] []) ''/srv'' ''aws''
       (Some [(''hello'', \<lparr>handler = ''handler''\<rparr>)]) io0
     = (io0\<lparr>console := [''Cannot locate handler -  not found''],
            probed := [''/srv/ts'', ''/srv/js'']\<rparr>,
        Inl HandlerFileMissing) \<and>
   extractFileNames (disk [''/srv/ts''] [] []) ''/srv'' ''aws''
       (Some [(''hello'', \<lparr>handler = ''handler''\<rparr>)]) io0
     = (io0\<lparr>probed := [''/srv/ts'']\<rparr>, Inr [''ts''])"
proof -
  have "last (split_on CHR ''.'' ([] @ ''handler'')) = ''handler''" by simp
  from handler_file_split [OF this] show ?thesis
    by (simp add: extractFileNames_generic generic_file_names_single disk_def io0_def)
qed

lemma generic_file_names_Cons:
  "generic_file_names hst cwd (Some ((k, fn) # rest)) s =
     (case handler_file hst cwd (handler fn) s of
        (s1, Inl e) \<Rightarrow> (s1, Inl e)
      | (s1, Inr f) \<Rightarrow>
          (case generic_file_names hst cwd (Some rest) s1 of
             (s2, Inl e) \<Rightarrow> (s2, Inl e)
           | (s2, Inr fs) \<Rightarrow> (s2, Inr (f # fs))))"
  by (simp add: generic_file_names_def lodash_values_def split: prod.splits sum.splits)

text \<open>
  C8. Generic handler parsing splits at the rightmost occurrence of the exported name: for
  a handler \<open>stem.name\<close> whose \<open>name\<close> is not empty and has no dot (as \<open>src/a.b.handler\<close>,
  with stem \<open>src/a.b\<close> and name \<open>handler\<close>), the exported name is \<open>name\<close> and the file-name
  stem is \<open>stem.\<close>, the dot retained. Resolution probes \<open>stem.ts\<close> first and returns it if
  it exists, without probing further; otherwise it probes \<open>stem.js\<close> and returns that if
  it exists. So the resolver, on the generic path, returns \<open>[stem.ts]\<close> for a mapping
  with this one handler when \<open>stem.ts\<close> exists (\<open>[stem.js]\<close> when only \<open>stem.js\<close> does),
  and for a longer mapping that entry point heads the list the remaining handlers
  resolve to.
\<close>

theorem handler_rightmost_split:
  assumes "CHR ''.'' \<notin> set name" and "name \<noteq> []"
  shows "lodash_last (split_on CHR ''.'' (stem @ ''.'' @ name)) = Some name \<and>
     substring0 (stem @ ''.'' @ name) (lastIndexOf (stem @ ''.'' @ name) name) = stem @ ''.'' \<and>
     (existsSync hst (path_join hst cwd (stem @ ''.ts'')) \<longrightarrow>
        handler_file hst cwd (stem @ ''.'' @ name) s
          = (s\<lparr>probed := probed s @ [path_join hst cwd (stem @ ''.ts'')]\<rparr>,
             Inr (stem @ ''.ts''))) \<and>
     (\<not> existsSync hst (path_join hst cwd (stem @ ''.ts'')) \<and>
      existsSync hst (path_join hst cwd (stem @ ''.js'')) \<longrightarrow>
        handler_file hst cwd (stem @ ''.'' @ name) s
          = (s\<lparr>probed := probed s @ [path_join hst cwd (stem @ ''.ts''),
                                        path_join hst cwd (stem @ ''.js'')]\<rparr>,
             Inr (stem @ ''.js''))) \<and>
     ((provider \<noteq> ''google'' \<or> \<not> existsSync hst (path_join hst cwd ''package.json'')) \<and>
      handler fn = stem @ ''.'' @ name \<and>
      existsSync hst (path_join hst cwd (stem @ ''.ts'')) \<longrightarrow>
        snd (extractFileNames hst cwd provider (Some [(k, fn)]) s) = Inr [stem @ ''.ts'']) \<and>
     ((provider \<noteq> ''google'' \<or> \<not> existsSync hst (path_join hst cwd ''package.json'')) \<and>
      handler fn = stem @ ''.'' @ name \<and>
      \<not> existsSync hst (path_join hst cwd (stem @ ''.ts'')) \<and>
      existsSync hst (path_join hst cwd (stem @ ''.js'')) \<longrightarrow>
        snd (extractFileNames hst cwd provider (Some [(k, fn)]) s) = Inr [stem @ ''.js'']) \<and>
     (provider \<noteq> ''google'' \<and> handler fn = stem @ ''.'' @ name \<and>
      existsSync hst (path_join hst cwd (stem @ ''.ts'')) \<longrightarrow>
        extractFileNames hst cwd provider (Some ((k, fn) # rest)) s
          = (case extractFileNames hst cwd provider (Some rest)
                    (s\<lparr>probed := probed s @ [path_join hst cwd (stem @ ''.ts'')]\<rparr>) of
               (s2, Inl e) \<Rightarrow> (s2, Inl e)
             | (s2, Inr fs) \<Rightarrow> (s2, Inr ((stem @ ''.ts'') # fs))))"
proof -
  have seg: "last (split_on CHR ''.'' ((stem @ ''.'') @ name)) = name"
    using assms(1) by (simp add: last_split_on_append split_on_no_sep)
  have parse: "lodash_last (split_on CHR ''.'' (stem @ ''.'' @ name)) = Some name"
    using seg by (simp add: lodash_last_split_on)
  have cut: "substring0 (stem @ ''.'' @ name) (lastIndexOf (stem @ ''.'' @ name) name)
               = stem @ ''.''"
    using stem_of_suffix [of "stem @ ''.''" name] by simp
  have hf: "handler_file hst cwd (stem @ ''.'' @ name) t =
     (if existsSync hst (path_join hst cwd (stem @ ''.ts''))
      then (t\<lparr>probed := probed t @ [path_join hst cwd (stem @ ''.ts'')]\<rparr>, Inr (stem @ ''.ts''))
      else if existsSync hst (path_join hst cwd (stem @ ''.js''))
      then (t\<lparr>probed := probed t @ [path_join hst cwd (stem @ ''.ts''),
                                      path_join hst cwd (stem @ ''.js'')]\<rparr>,
            Inr (stem @ ''.js''))
      else (t\<lparr>probed := probed t @ [path_join hst cwd (stem @ ''.ts''),
                                      path_join hst cwd (stem @ ''.js'')],
               console := console t
                  @ [''Cannot locate handler - '' @ butlast (stem @ ''.'') @ '' not found'']\<rparr>,
            Inl HandlerFileMissing))" for t
    using handler_file_split [OF seg assms(2), of hst cwd t] by simp
  have single: "snd (extractFileNames hst cwd provider (Some [(k, fn)]) s)
                  = (if existsSync hst (path_join hst cwd (stem @ ''.ts''))
                     then Inr [stem @ ''.ts'']
                     else if existsSync hst (path_join hst cwd (stem @ ''.js''))
                     then Inr [stem @ ''.js'']
                     else Inl HandlerFileMissing)"
    if generic_path:
      "provider \<noteq> ''google'' \<or> \<not> existsSync hst (path_join hst cwd ''package.json'')"
      and spec: "handler fn = stem @ ''.'' @ name"
  proof -
    obtain s' where "extractFileNames hst cwd provider (Some [(k, fn)]) s
                       = generic_file_names hst cwd (Some [(k, fn)]) s'"
      using extractFileNames_reaches_generic [OF generic_path] by blast
    then have "snd (extractFileNames hst cwd provider (Some [(k, fn)]) s)
                 = snd (generic_file_names hst cwd (Some [(k, fn)]) s')"
      by simp
    also have "\<dots> = (if existsSync hst (path_join hst cwd (stem @ ''.ts''))
                     then Inr [stem @ ''.ts'']
                     else if existsSync hst (path_join hst cwd (stem @ ''.js''))
                     then Inr [stem @ ''.js'']
                     else Inl HandlerFileMissing)"
      unfolding generic_file_names_single spec hf by simp
    finally show ?thesis .
  qed
  have batch: "extractFileNames hst cwd provider (Some ((k, fn) # rest)) s
          = (case extractFileNames hst cwd provider (Some rest)
                    (s\<lparr>probed := probed s @ [path_join hst cwd (stem @ ''.ts'')]\<rparr>) of
               (s2, Inl e) \<Rightarrow> (s2, Inl e)
             | (s2, Inr fs) \<Rightarrow> (s2, Inr ((stem @ ''.ts'') # fs)))"
    if other: "provider \<noteq> ''google''" and spec: "handler fn = stem @ ''.'' @ name"
      and found: "existsSync hst (path_join hst cwd (stem @ ''.ts''))"
    unfolding extractFileNames_generic [OF other] generic_file_names_Cons spec hf
    using found by simp
  show ?thesis
    using parse cut hf [of s] single batch by simp
qed

theorem handler_rightmost_split_witness:
  "CHR ''.'' \<notin> set ''handler'' \<and> ''handler'' \<noteq> [] \<and>
   lodash_last (split_on CHR ''.'' ''src/a.b.handler'') = Some ''handler'' \<and>
   substring0 ''src/a.b.handler'' (lastIndexOf ''src/a.b.handler'' ''handler'') = ''src/a.b.'' \<and>
   existsSync (disk [''/srv/src/a.b.ts'', ''/srv/src/a.b.js''] [] []) ''/srv/src/a.b.ts'' \<and>
   handler_file (disk [''/srv/src/a.b.ts'', ''/srv/src/a.b.js''] [] []) ''/srv''
       ''src/a.b.handler'' io0
     = (io0\<lparr>probed := [''/srv/src/a.b.ts'']\<rparr>, Inr ''src/a.b.ts'') \<and>
   snd (extractFileNames (disk [''/srv/src/a.b.ts'', ''/srv/src/a.b.js''] [] []) ''/srv'' ''aws''
          (Some [(''hello'', \<lparr>handler = ''src/a.b.handler''\<rparr>)]) io0)
     = Inr [''src/a.b.ts''] \<and>
   extractFileNames (disk [''/srv/src/a.b.ts'', ''/srv/src/a.b.js''] [] []) ''/srv'' ''aws''
       (Some [(''hello'', \<lparr>handler = ''src/a.b.handler''\<rparr>)]) io0
     = (io0\<lparr>probed := [''/srv/src/a.b.ts'']\<rparr>, Inr [''src/a.b.ts'']) \<and>
   \<not> existsSync (disk [''/srv/src/a.b.js''] [] []) ''/srv/src/a.b.ts'' \<and>
   existsSync (disk [''/srv/src/a.b.js''] [] []) ''/srv/src/a.b.js'' \<and>
   handler_file (disk [''/srv/src/a.b.js''] [] []) ''/srv'' ''src/a.b.handler'' io0
     = (io0\<lparr>probed := [''/srv/src/a.b.ts'', ''/srv/src/a.b.js'']\<rparr>, Inr ''src/a.b.js'') \<and>
   snd (extractFileNames (disk [''/srv/src/a.b.js''] [] []) ''/srv'' ''aws''
          (Some [(''hello'', \<lparr>handler = ''src/a.b.handler''\<rparr>)]) io0)
     = Inr [''src/a.b.js'']"
proof -
  have a: "CHR ''.'' \<notin> set ''handler''" by simp
  have b: "''handler'' \<noteq> []" by simp
  show ?thesis
    using a b
      handler_rightmost_split [OF a b, of "''src/a.b''"
        "disk [''/srv/src/a.b.ts'', ''/srv/src/a.b.js''] [] []" "''/srv''" io0
        "''aws''" "\<lparr>handler = ''src/a.b.handler''\<rparr>" "''hello''" "[]"]
      handler_rightmost_split [OF a b, of "''src/a.b''"
        "disk [''/srv/src/a.b.js''] [] []" "''/srv''" io0
        "''aws''" "\<lparr>handler = ''src/a.b.handler''\<rparr>" "''hello''" "[]"]
    by (simp add: disk_def io0_def extractFileNames_generic)
qed

lemma manifest_main_string:
  "map_of props ''main'' = Some (JString m) \<Longrightarrow> m \<noteq> [] \<Longrightarrow>
     manifest_main (JObject props) = Inr (replace_js_ts m)"
  by (simp add: manifest_main_def)

text \<open>
  C5. For target \<open>"google"\<close> with a manifest at \<open>cwd/package.json\<close> whose \<open>main\<close> is
  \<open>"dist/app.js"\<close> and with \<open>dist/app.ts\<close> on disk, resolution returns exactly
  \<open>["dist/app.ts"]\<close> whatever the handler mapping, and probes nothing but the manifest and
  that file. If the manifest names a \<open>main\<close> whose rewritten file does not exist under
  \<open>cwd\<close>, resolution fails with \<open>ManifestEntrypointMissing\<close>. Without a manifest,
  resolution is the generic handler-based resolution of the supplied mapping.
\<close>

theorem google_manifest_entry_point:
  "(existsSync hst (path_join hst cwd ''package.json'') \<and>
    readFileSync hst (path_join hst cwd ''package.json'') = Inr text \<and>
    JSON_parse hst text = Inr (JObject props) \<and>
    map_of props ''main'' = Some (JString ''dist/app.js'') \<and>
    existsSync hst (path_join hst cwd ''dist/app.ts'') \<longrightarrow>
      extractFileNames hst cwd ''google'' functions s
        = (s\<lparr>probed := probed s @ [path_join hst cwd ''package.json'',
                                      path_join hst cwd ''dist/app.ts'']\<rparr>,
           Inr [''dist/app.ts''])) \<and>
   (existsSync hst (path_join hst cwd ''package.json'') \<and>
    readFileSync hst (path_join hst cwd ''package.json'') = Inr text \<and>
    JSON_parse hst text = Inr (JObject props) \<and>
    map_of props ''main'' = Some (JString m) \<and> m \<noteq> [] \<and>
    \<not> existsSync hst (path_join hst cwd (replace_js_ts m)) \<longrightarrow>
      snd (extractFileNames hst cwd ''google'' functions s) = Inl ManifestEntrypointMissing) \<and>
   (\<not> existsSync hst (path_join hst cwd ''package.json'') \<longrightarrow>
      extractFileNames hst cwd ''google'' functions s
        = generic_file_names hst cwd functions
            (s\<lparr>probed := probed s @ [path_join hst cwd ''package.json'']\<rparr>))"
proof -
  have r: "replace_js_ts ''dist/app.js'' = ''dist/app.ts''"
    by (simp add: replace_js_ts_def endsWith_def)
  show ?thesis
    by (auto simp: extractFileNames_def probe_def manifest_main_string r console_log_def)
qed

theorem google_manifest_entry_point_witness:
  "extractFileNames (google_disk [''/srv/dist/app.ts'', ''/srv/src/a.ts'']) ''/srv'' ''google''
       (Some [(''hello'', \<lparr>handler = ''src/a.handler''\<rparr>)]) io0
     = (io0\<lparr>probed := [''/srv/package.json'', ''/srv/dist/app.ts'']\<rparr>, Inr [''dist/app.ts'']) \<and>
   snd (extractFileNames (google_disk [''/srv/src/a.ts'']) ''/srv'' ''google''
          (Some [(''hello'', \<lparr>handler = ''src/a.handler''\<rparr>)]) io0)
     = Inl ManifestEntrypointMissing \<and>
   extractFileNames (disk [''/srv/src/a.ts''] [] []) ''/srv'' ''google''
       (Some [(''hello'', \<lparr>handler = ''src/a.handler''\<rparr>)]) io0
     = (io0\<lparr>probed := [''/srv/package.json'', ''/srv/src/a.ts'']\<rparr>, Inr [''src/a.ts''])"
proof -
  let ?fns = "Some [(''hello'', \<lparr>handler = ''src/a.handler''\<rparr>)]"
  have seg: "last (split_on CHR ''.'' (''src/a.'' @ ''handler'')) = ''handler''" by simp
  have g: "generic_file_names (disk [''/srv/src/a.ts''] [] []) ''/srv'' ?fns
             (io0\<lparr>probed := probed io0 @ [''/srv/package.json'']\<rparr>)
           = (io0\<lparr>probed := [''/srv/package.json'', ''/srv/src/a.ts'']\<rparr>, Inr [''src/a.ts''])"
    using handler_file_split [OF seg, of "disk [''/srv/src/a.ts''] [] []" "''/srv''"
            "io0\<lparr>probed := probed io0 @ [''/srv/package.json'']\<rparr>"]
    by (simp add: generic_file_names_single disk_def io0_def)
  show ?thesis
    using google_manifest_entry_point [of "google_disk [''/srv/dist/app.ts'', ''/srv/src/a.ts'']"
            "''/srv''" manifest_text "[(''main'', JString ''dist/app.js'')]" ?fns io0
            "''dist/app.js''"]
      google_manifest_entry_point [of "google_disk [''/srv/src/a.ts'']"
            "''/srv''" manifest_text "[(''main'', JString ''dist/app.js'')]" ?fns io0
            "''dist/app.js''"]
      google_manifest_entry_point [of "disk [''/srv/src/a.ts''] [] []"
            "''/srv''" manifest_text "[(''main'', JString ''dist/app.js'')]" ?fns io0
            "''dist/app.js''"]
      g
    by (simp add: google_disk_def disk_def manifest_json_def io0_def replace_js_ts_def
          endsWith_def)
qed

text \<open>
  C10. For a target other than \<open>"google"\<close>, an absent or empty handler mapping gives the
  empty list, no error, and leaves console, probes and logger as they were: no file is
  probed. For \<open>"google"\<close> without a manifest the same holds, the one probe being that of
  \<open>package.json\<close> itself.
\<close>

theorem extractFileNames_no_handlers:
  "(provider \<noteq> ''google'' \<longrightarrow>
      extractFileNames hst cwd provider None s = (s, Inr []) \<and>
      extractFileNames hst cwd provider (Some []) s = (s, Inr [])) \<and>
   (\<not> existsSync hst (path_join hst cwd ''package.json'') \<longrightarrow>
      extractFileNames hst cwd ''google'' None s
        = (s\<lparr>probed := probed s @ [path_join hst cwd ''package.json'']\<rparr>, Inr []) \<and>
      extractFileNames hst cwd ''google'' (Some []) s
        = (s\<lparr>probed := probed s @ [path_join hst cwd ''package.json'']\<rparr>, Inr []))"
  by (simp add: extractFileNames_def probe_def)

theorem extractFileNames_no_handlers_witness:
  "''aws'' \<noteq> ''google'' \<and>
   extractFileNames (disk [] [] []) ''/srv'' ''aws'' None io0 = (io0, Inr []) \<and>
   extractFileNames (disk [] [] []) ''/srv'' ''aws'' (Some []) io0 = (io0, Inr []) \<and>
   \<not> existsSync (disk [] [] []) (path_join (disk [] [] []) ''/srv'' ''package.json'') \<and>
   extractFileNames (disk [] [] []) ''/srv'' ''google'' None io0
     = (io0\<lparr>probed := [''/srv/package.json'']\<rparr>, Inr []) \<and>
   extractFileNames (disk [] [] []) ''/srv'' ''google'' (Some []) io0
     = (io0\<lparr>probed := [''/srv/package.json'']\<rparr>, Inr [])"
  using extractFileNames_no_handlers [of "''aws''" "disk [] [] []" "''/srv''" io0]
  by (simp add: disk_def io0_def)

section \<open>Compilation: properties\<close>

lemma run_console:
  "fst (fst (run ts fileNames opts s)) =
     fold (print_diagnostic ts)
       (getPreEmitDiagnostics ts (program_of ts fileNames opts)
          @ diagnostics (emit_of ts fileNames opts)) s"
  by (simp add: run_def Let_def)

lemma run_options:
  "snd (fst (run ts fileNames opts s)) = assign ''listEmittedFiles'' (B True) opts"
  by (simp add: run_def Let_def)

lemma run_result:
  "snd (run ts fileNames opts s) =
     (if emitSkipped (emit_of ts fileNames opts) then Inl CompilationFailedError
      else Inr (map_option (filter (\<lambda>filename. endsWith filename ''.js''))
                  (emittedFiles (emit_of ts fileNames opts))))"
  by (simp add: run_def Let_def)

text \<open>What the loop body prints: nothing at offset 0, the formatted line at any other offset.\<close>

lemma print_diagnostic_zero: "start d = Some 0 \<Longrightarrow> print_diagnostic ts d s = s"
  by (simp add: print_diagnostic_def split: option.splits)

lemma print_diagnostic_absent:
  "file' d = None \<or> start d = None \<Longrightarrow> print_diagnostic ts d s = s"
  by (auto simp: print_diagnostic_def split: option.splits)

lemma print_diagnostic_positive:
  "file' d = Some f \<Longrightarrow> start d = Some pos \<Longrightarrow> 0 < pos \<Longrightarrow>
     print_diagnostic ts d s =
       console_log (fileName f @ '' ('' @ show_nat (fst (getLineAndCharacterOfPosition f pos) + 1)
                      @ '','' @ show_nat (snd (getLineAndCharacterOfPosition f pos) + 1)
                      @ ''): '' @ flattenDiagnosticMessageText ts (messageText d) [CHR 0x0A]) s"
  by (simp add: print_diagnostic_def split_def Let_def del: show_nat.simps)

text \<open>
  C3. If the emit result has the emit-skipped flag set, \<open>run\<close> raises
  \<open>CompilationFailedError\<close>; if not, it returns a result. Either way the console then
  holds what the loop over all diagnostics (pre-emit, then emit-time) printed: the
  failure comes after the printing, and neither the number of diagnostics nor their
  categories decide it.
\<close>

theorem run_fails_iff_emit_skipped:
  "(emitSkipped (emit_of ts fileNames opts) \<longrightarrow>
      snd (run ts fileNames opts s) = Inl CompilationFailedError) \<and>
   (\<not> emitSkipped (emit_of ts fileNames opts) \<longrightarrow>
      (\<exists>files. snd (run ts fileNames opts s) = Inr files)) \<and>
   fst (fst (run ts fileNames opts s)) =
     fold (print_diagnostic ts)
       (getPreEmitDiagnostics ts (program_of ts fileNames opts)
          @ diagnostics (emit_of ts fileNames opts)) s"
  by (simp add: run_result run_console)

theorem run_fails_iff_emit_skipped_witness:
  "emitSkipped (emit_of skipping_engine [''src/a.ts''] []) \<and>
   run skipping_engine [''src/a.ts''] [] io0
     = ((io0\<lparr>console := [''src/a.ts (3,6): unused'']\<rparr>, [(''listEmittedFiles'', B True)]),
        Inl CompilationFailedError) \<and>
   \<not> emitSkipped (emit_of lenient_engine [''src/a.ts''] []) \<and>
   run lenient_engine [''src/a.ts''] [] io0
     = ((io0\<lparr>console := [''src/a.ts (3,6): bad type'']\<rparr>, [(''listEmittedFiles'', B True)]),
        Inr (Some [''out/a.js'', ''out/b.js'']))"
  using run_fails_iff_emit_skipped [of skipping_engine "[''src/a.ts'']" "[]" io0]
    run_fails_iff_emit_skipped [of lenient_engine "[''src/a.ts'']" "[]" io0]
  by (simp add: run_def skipping_engine_def lenient_engine_def engine_def emitted_def
        print_diagnostic_def diag_at_def global_diag_def a_ts_def console_log_def io0_def
        endsWith_def digit_def Let_def)

text \<open>
  C7 (the code departs from the claim). A diagnostic that carries a source file and the
  start offset 0 is not printed: of the two diagnostics of this compile, at offsets 0 and
  25 of \<open>src/a.ts\<close>, only the second reaches the console.
\<close>

theorem run_drops_diagnostic_at_offset_zero:
  "fst (fst (run offset_zero_engine [''src/a.ts''] [] io0))
     = io0\<lparr>console := [''src/a.ts (3,6): Cannot find name y.'']\<rparr>"
  by (simp add: run_def offset_zero_engine_def engine_def emitted_def print_diagnostic_def
        diag_at_def a_ts_def console_log_def io0_def digit_def Let_def)

text \<open>
  C9. When emit is not skipped and the engine reports the emitted files, \<open>run\<close> returns
  that list filtered, in order, to exactly the paths ending in \<open>.js\<close>; no path ending in
  \<open>.js.map\<close> or \<open>.d.ts\<close> is among them.
\<close>

theorem run_returns_js_outputs:
  assumes "\<not> emitSkipped (emit_of ts fileNames opts)"
    and "emittedFiles (emit_of ts fileNames opts) = Some files"
  shows "snd (run ts fileNames opts s) = Inr (Some (filter (\<lambda>f. endsWith f ''.js'') files)) \<and>
     (f \<in> set (filter (\<lambda>f. endsWith f ''.js'') files)
        \<longleftrightarrow> f \<in> set files \<and> endsWith f ''.js'') \<and>
     (f \<in> set (filter (\<lambda>f. endsWith f ''.js'') files) \<longrightarrow>
        \<not> endsWith f ''.js.map'' \<and> \<not> endsWith f ''.d.ts'')"
  using assms endsWith_js_not_other [of f] by (simp add: run_result)

theorem run_returns_js_outputs_witness:
  "\<not> emitSkipped (emit_of lenient_engine [''src/a.ts''] []) \<and>
   emittedFiles (emit_of lenient_engine [''src/a.ts''] [])
     = Some [''out/a.js'', ''out/a.js.map'', ''out/a.d.ts'', ''out/b.js''] \<and>
   snd (run lenient_engine [''src/a.ts''] [] io0) = Inr (Some [''out/a.js'', ''out/b.js''])"
proof -
  have a: "\<not> emitSkipped (emit_of lenient_engine [''src/a.ts''] [])"
    by (simp add: lenient_engine_def engine_def emitted_def)
  have b: "emittedFiles (emit_of lenient_engine [''src/a.ts''] [])
             = Some [''out/a.js'', ''out/a.js.map'', ''out/a.d.ts'', ''out/b.js'']"
    by (simp add: lenient_engine_def engine_def emitted_def)
  from run_returns_js_outputs [OF a b, of io0 "''out/a.js''"]
  have "snd (run lenient_engine [''src/a.ts''] [] io0) = Inr (Some [''out/a.js'', ''out/b.js''])"
    by (simp add: endsWith_def)
  with a b show ?thesis by simp
qed

text \<open>
  C6 (as amended). \<open>run\<close> leaves every field of the caller's options object other than
  \<open>listEmittedFiles\<close> at the value it had before the call, and sets \<open>listEmittedFiles\<close> to
  \<open>true\<close>, whether it returns or throws.
\<close>

theorem run_options_frame:
  "(k \<noteq> ''listEmittedFiles'' \<longrightarrow>
      map_of (snd (fst (run ts fileNames opts s))) k = map_of opts k) \<and>
   map_of (snd (fst (run ts fileNames opts s))) ''listEmittedFiles'' = Some (B True)"
  by (simp add: run_options map_of_assign)

theorem run_options_frame_witness:
  "''strict'' \<noteq> ''listEmittedFiles'' \<and>
   map_of (snd (fst (run lenient_engine [''src/a.ts'']
                       [(''strict'', B False), (''listEmittedFiles'', B False)] io0))) ''strict''
     = Some (B False) \<and>
   map_of (snd (fst (run lenient_engine [''src/a.ts'']
                       [(''strict'', B False), (''listEmittedFiles'', B False)] io0)))
       ''listEmittedFiles''
     = Some (B True)"
  using run_options_frame [of "''strict''" lenient_engine "[''src/a.ts'']"
          "[(''strict'', B False), (''listEmittedFiles'', B False)]" io0]
  by simp

text \<open>
  The claim as stated fails: an options object whose \<open>listEmittedFiles\<close> is \<open>false\<close>
  before the call holds \<open>true\<close> there after it.
\<close>

theorem run_mutates_options_counterexample:
  "map_of [(''strict'', B False), (''listEmittedFiles'', B False)] ''listEmittedFiles''
     = Some (B False) \<and>
   map_of (snd (fst (run lenient_engine [''src/a.ts'']
                       [(''strict'', B False), (''listEmittedFiles'', B False)] io0)))
       ''listEmittedFiles''
     = Some (B True)"
  by (simp add: run_def Let_def)

section \<open>Configuration: properties\<close>

text \<open>The whole outcome for a config file that parses and validates.\<close>

lemma getTypescriptConfig_valid:
  assumes "existsSync hst (config_path hst cwd tsconfigFilePath)"
    and "readFileSync hst (config_path hst cwd tsconfigFilePath) = Inr text"
    and "error (parseConfigFileTextToJson ts (config_path hst cwd tsconfigFilePath) text) = None"
    and "parseJsonConfigFileContent ts
           (config (parseConfigFileTextToJson ts (config_path hst cwd tsconfigFilePath) text))
           (path_dirname hst (config_path hst cwd tsconfigFilePath)) = parsed"
    and "errors parsed = []"
  shows "getTypescriptConfig hst ts cwd tsconfigFilePath logger s =
     (s\<lparr>probed := probed s @ [config_path hst cwd tsconfigFilePath],
         logged := logged s
            @ (if logger then [''Using local tsconfig.json at '' @ [CHR 0x22]
                                 @ config_path hst cwd tsconfigFilePath @ [CHR 0x22]] else [])
            @ (if rootDir_differs hst (options parsed) cwd \<and> logger
               then [rootDir_warning] else [])\<rparr>,
      Inr (assign ''rootDir'' (S cwd) (options parsed)))"
  using assms
  by (simp add: getTypescriptConfig_def probe_def logger_log_def Let_def)

text \<open>
  C2. For every \<open>cwd\<close> and every config file that parses and validates, the resolver
  returns options whose \<open>rootDir\<close> is \<open>cwd\<close>, with or without a logger and whatever
  \<open>rootDir\<close> the file gave. With a logger, if the file's \<open>rootDir\<close> is a directory other
  than \<open>cwd\<close> (a non-empty path that \<open>path.resolve\<close> does not send where it sends
  \<open>cwd\<close>), the last message logged is the override warning; without a logger nothing is
  logged.
\<close>

theorem config_rootDir_is_cwd:
  assumes "existsSync hst (config_path hst cwd tsconfigFilePath)"
    and "readFileSync hst (config_path hst cwd tsconfigFilePath) = Inr text"
    and "error (parseConfigFileTextToJson ts (config_path hst cwd tsconfigFilePath) text) = None"
    and "parseJsonConfigFileContent ts
           (config (parseConfigFileTextToJson ts (config_path hst cwd tsconfigFilePath) text))
           (path_dirname hst (config_path hst cwd tsconfigFilePath)) = parsed"
    and "errors parsed = []"
  shows "(\<exists>opts. snd (getTypescriptConfig hst ts cwd tsconfigFilePath logger s) = Inr opts \<and>
            map_of opts ''rootDir'' = Some (S cwd)) \<and>
     (logger \<and> map_of (options parsed) ''rootDir'' = Some (S rootDir) \<and> rootDir \<noteq> [] \<and>
      path_resolve hst rootDir \<noteq> path_resolve hst cwd \<longrightarrow>
        last (logged (fst (getTypescriptConfig hst ts cwd tsconfigFilePath logger s)))
          = rootDir_warning) \<and>
     (\<not> logger \<longrightarrow>
        logged (fst (getTypescriptConfig hst ts cwd tsconfigFilePath logger s)) = logged s)"
  by (simp add: getTypescriptConfig_valid [OF assms] map_of_assign rootDir_differs_def)

theorem config_rootDir_is_cwd_witness:
  "getTypescriptConfig tsconfig_disk tsconfig_engine ''/srv'' None True io0
     = (io0\<lparr>probed := [''/srv/tsconfig.json''],
            logged := [''Using local tsconfig.json at '' @ [CHR 0x22] @ ''/srv/tsconfig.json''
                         @ [CHR 0x22],
                       rootDir_warning]\<rparr>,
        Inr [(''strict'', B True), (''rootDir'', S ''/srv'')]) \<and>
   getTypescriptConfig tsconfig_disk tsconfig_engine ''/srv'' None False io0
     = (io0\<lparr>probed := [''/srv/tsconfig.json'']\<rparr>,
        Inr [(''strict'', B True), (''rootDir'', S ''/srv'')])"
proof -
  have a: "existsSync tsconfig_disk (config_path tsconfig_disk ''/srv'' None)"
    by (simp add: tsconfig_disk_def disk_def)
  have b: "readFileSync tsconfig_disk (config_path tsconfig_disk ''/srv'' None) = Inr tsconfig_text"
    by (simp add: tsconfig_disk_def disk_def)
  have c: "error (parseConfigFileTextToJson tsconfig_engine
                    (config_path tsconfig_disk ''/srv'' None) tsconfig_text) = None"
    by (simp add: tsconfig_engine_def engine_def no_config_text_def)
  have d: "parseJsonConfigFileContent tsconfig_engine
             (config (parseConfigFileTextToJson tsconfig_engine
                        (config_path tsconfig_disk ''/srv'' None) tsconfig_text))
             (path_dirname tsconfig_disk (config_path tsconfig_disk ''/srv'' None))
           = tsconfig_parsed"
    by (simp add: tsconfig_engine_def engine_def)
  have e: "errors tsconfig_parsed = []"
    by (simp add: tsconfig_parsed_def)
  have p: "path_join tsconfig_disk ''/srv'' ''tsconfig.json'' = ''/srv/tsconfig.json''"
    by (simp add: tsconfig_disk_def disk_def)
  have r: "rootDir_differs tsconfig_disk (options tsconfig_parsed) ''/srv''"
    by (simp add: rootDir_differs_def tsconfig_parsed_def tsconfig_disk_def disk_def)
  have o: "assign ''rootDir'' (S ''/srv'') (options tsconfig_parsed)
             = [(''strict'', B True), (''rootDir'', S ''/srv'')]"
    by (simp add: tsconfig_parsed_def)
  have "getTypescriptConfig tsconfig_disk tsconfig_engine ''/srv'' None True io0
     = (io0\<lparr>probed := [''/srv/tsconfig.json''],
            logged := [''Using local tsconfig.json at '' @ [CHR 0x22] @ ''/srv/tsconfig.json''
                         @ [CHR 0x22],
                       rootDir_warning]\<rparr>,
        Inr [(''strict'', B True), (''rootDir'', S ''/srv'')])"
    by (simp add: getTypescriptConfig_valid [OF a b c d e] r o p io0_def)
  moreover have "getTypescriptConfig tsconfig_disk tsconfig_engine ''/srv'' None False io0
     = (io0\<lparr>probed := [''/srv/tsconfig.json'']\<rparr>,
        Inr [(''strict'', B True), (''rootDir'', S ''/srv'')])"
    by (simp add: getTypescriptConfig_valid [OF a b c d e] r o p io0_def)
  ultimately show ?thesis
    using config_rootDir_is_cwd [OF a b c d e, of True io0 "''/srv/src''"]
      config_rootDir_is_cwd [OF a b c d e, of False io0 "''/srv/src''"]
    by simp
qed

text \<open>
  C4 (as amended). Whenever no config file exists at \<open>cwd/configFileName\<close>, the resolver
  raises no error, reads nothing beyond the existence check, and returns exactly the
  default option set of \<open>makeDefaultTypescriptConfig\<close>: the documented options (module
  CommonJS, target ES5, lib ES2020, \<open>allowJs\<close> and \<open>checkJs\<close>, \<open>strict\<close> and the
  strict-family flags, Node module resolution, \<open>esModuleInterop\<close>,
  \<open>experimentalDecorators\<close> and \<open>emitDecoratorMetadata\<close>,
  \<open>forceConsistentCasingInFileNames\<close>, \<open>sourceMap\<close>, \<open>rootDir\<close> \<open>"./"\<close>) and, besides them,
  \<open>noUnusedLocals\<close>, \<open>noUnusedParameters\<close>, \<open>noImplicitReturns\<close>,
  \<open>noFallthroughCasesInSwitch\<close> and \<open>preserveConstEnums\<close>, all \<open>true\<close>; each option is set
  once.
\<close>

theorem config_missing_gives_default:
  assumes "\<not> existsSync hst (config_path hst cwd tsconfigFilePath)"
  shows "getTypescriptConfig hst ts cwd tsconfigFilePath logger s
       = (s\<lparr>probed := probed s @ [config_path hst cwd tsconfigFilePath]\<rparr>,
          Inr makeDefaultTypescriptConfig) \<and>
     set makeDefaultTypescriptConfig = set documented_default \<union> set undocumented_default \<and>
     distinct (map fst makeDefaultTypescriptConfig)"
proof -
  have "getTypescriptConfig hst ts cwd tsconfigFilePath logger s
       = (s\<lparr>probed := probed s @ [config_path hst cwd tsconfigFilePath]\<rparr>,
          Inr makeDefaultTypescriptConfig)"
    using assms by (simp add: getTypescriptConfig_def probe_def)
  moreover have "set makeDefaultTypescriptConfig
                   = set documented_default \<union> set undocumented_default"
    unfolding makeDefaultTypescriptConfig_def documented_default_def undocumented_default_def
    by (simp add: insert_commute)
  moreover have "distinct (map fst makeDefaultTypescriptConfig)"
    by (simp add: makeDefaultTypescriptConfig_def)
  ultimately show ?thesis by simp
qed

theorem config_missing_gives_default_witness:
  "\<not> existsSync (disk [] [] []) (config_path (disk [] [] []) ''/srv'' None) \<and>
   getTypescriptConfig (disk [] [] []) tsconfig_engine ''/srv'' None True io0
     = (io0\<lparr>probed := [''/srv/tsconfig.json'']\<rparr>, Inr makeDefaultTypescriptConfig)"
proof -
  have a: "\<not> existsSync (disk [] [] []) (config_path (disk [] [] []) ''/srv'' None)"
    by (simp add: disk_def)
  show ?thesis
    using a config_missing_gives_default [OF a, of tsconfig_engine True io0]
    by (simp add: disk_def io0_def)
qed

text \<open>
  The claim as stated fails: the options returned for a missing config file hold
  \<open>noUnusedLocals\<close>, which is not in the documented set.
\<close>

theorem config_default_has_more_counterexample:
  "snd (getTypescriptConfig (disk [] [] []) tsconfig_engine ''/srv'' None False io0)
     = Inr makeDefaultTypescriptConfig \<and>
   map_of makeDefaultTypescriptConfig ''noUnusedLocals'' = Some (B True) \<and>
   map_of documented_default ''noUnusedLocals'' = None"
  by (simp add: getTypescriptConfig_def probe_def disk_def makeDefaultTypescriptConfig_def
        documented_default_def)

end
